theory Spec2Isabelle
  imports Main "HOL-Library.Sublist"
begin

section \<open>Mincer's Template base class (lib/mincer/template.js)\<close>

text \<open>
  A shallow embedding of \<^verbatim>\<open>lib/mincer/template.js\<close>: the constructor
  \<^verbatim>\<open>Template(file, data)\<close>, the methods \<^verbatim>\<open>Template.prototype.evaluate\<close> and
  \<^verbatim>\<open>Template.prototype.require\<close>, and the static object \<^verbatim>\<open>Template.libs\<close>.
  The JavaScript runtime the file relies on (values, objects with their prototype
  chains, property lookup and assignment, \<^verbatim>\<open>new\<close>, the module loader) is written out
  first, as far as the file uses it.
\<close>

subsection \<open>JavaScript values\<close>

type_synonym addr = nat

text \<open>
  The values of the model: the primitives \<^verbatim>\<open>undefined\<close>, \<^verbatim>\<open>null\<close>, booleans and
  strings, and references to the objects of the heap, functions included. Numbers
  are left out (they are floating point).
\<close>

datatype jsval =
    JUndefined
  | JNull
  | JBool bool
  | JStr string
  | JRef addr

text \<open>ToBoolean: what \<^verbatim>\<open>||\<close> tests.\<close>

fun truthy :: "jsval \<Rightarrow> bool" where
  "truthy JUndefined = False"
| "truthy JNull = False"
| "truthy (JBool b) = b"
| "truthy (JStr s) = (s \<noteq> [])"
| "truthy (JRef a) = True"

text \<open>\<^verbatim>\<open>a || b\<close>: the left operand when it is truthy, the right operand otherwise.\<close>

definition js_or :: "jsval \<Rightarrow> jsval \<Rightarrow> jsval" where
  "js_or a b = (if truthy a then a else b)"

text \<open>
  ToString, which \<^verbatim>\<open>+\<close> applies to the other operand of a string. An object is
  rendered as \<^verbatim>\<open>Object.prototype.toString\<close> renders it; objects with a
  \<^verbatim>\<open>toString\<close> of their own, and functions, which print as their source text, are
  outside this rendering.
\<close>

fun ToString :: "jsval \<Rightarrow> string" where
  "ToString JUndefined = ''undefined''"
| "ToString JNull = ''null''"
| "ToString (JBool b) = (if b then ''true'' else ''false'')"
| "ToString (JStr s) = s"
| "ToString (JRef a) = ''[object Object]''"

text \<open>
  What a \<^verbatim>\<open>throw\<close> carries: \<^verbatim>\<open>new Error(message)\<close>; three kinds of TypeError, whose
  message texts depend on the engine (an assignment in strict mode to the read-only
  property named; an access to the property named of \<^verbatim>\<open>undefined\<close> or \<^verbatim>\<open>null\<close>, or
  a strict-mode assignment to a property of a primitive; a prototype that the setter
  of \<^verbatim>\<open>__proto__\<close> refuses); any other exception, by the name of its constructor and
  its message (a SyntaxError of a module's source, whatever a module throws).
\<close>

datatype js_error =
    Error string
  | ReadOnly string
  | NoObject string
  | ProtoRefused
  | Thrown string string

subsection \<open>Objects and the heap\<close>

record property =
  pvalue :: jsval
  writable :: bool

type_synonym props = "string \<rightharpoonup> property"

text \<open>
  An object: its own data properties and its prototype (an object or \<^verbatim>\<open>null\<close>).
  Functions are objects; what calling one does is not part of the object.
\<close>

record object =
  own :: props
  proto :: jsval

text \<open>
  The state of the process: the heap, in which the addresses below \<open>next_addr\<close> are
  allocated, and the state of the module loader.
\<close>

record 'w world =
  heap :: "addr \<Rightarrow> object"
  next_addr :: addr
  loader :: 'w

text \<open>
  The objects that exist once \<^verbatim>\<open>template.js\<close> has been loaded, by address:
  \<^verbatim>\<open>Object.prototype\<close>, \<^verbatim>\<open>Function.prototype\<close>, the functions \<^verbatim>\<open>Object\<close> and
  \<^verbatim>\<open>Function\<close>, the ten methods of \<^verbatim>\<open>Object.prototype\<close>; then what the file
  creates: the function \<^verbatim>\<open>Template\<close>, the object \<^verbatim>\<open>Template.prototype\<close>, the two
  anonymous functions assigned to \<^verbatim>\<open>evaluate\<close> and \<^verbatim>\<open>require\<close>, the object
  \<^verbatim>\<open>Template.libs\<close>, and the \<^verbatim>\<open>prototype\<close> objects of the two anonymous functions.
\<close>

definition Object_prototype_addr :: addr where "Object_prototype_addr = 0"
definition Function_prototype_addr :: addr where "Function_prototype_addr = 1"
definition Object_addr :: addr where "Object_addr = 2"
definition Function_addr :: addr where "Function_addr = 3"
definition toString_addr :: addr where "toString_addr = 4"
definition Template_addr :: addr where "Template_addr = 14"
definition Template_prototype_addr :: addr where "Template_prototype_addr = 15"
definition evaluate_addr :: addr where "evaluate_addr = 16"
definition require_addr :: addr where "require_addr = 17"
definition libs_addr :: addr where "libs_addr = 18"

definition data_property :: "jsval \<Rightarrow> property" where
  "data_property v = \<lparr>pvalue = v, writable = True\<rparr>"

definition fixed_property :: "jsval \<Rightarrow> property" where
  "fixed_property v = \<lparr>pvalue = v, writable = False\<rparr>"

text \<open>
  A function object: its \<^verbatim>\<open>name\<close>, which is read-only, and further properties; its
  prototype is \<^verbatim>\<open>Function.prototype\<close>. Of the properties of functions the model has
  \<^verbatim>\<open>name\<close> and \<^verbatim>\<open>prototype\<close>, and \<^verbatim>\<open>constructor\<close> and \<^verbatim>\<open>name\<close> of
  \<^verbatim>\<open>Function.prototype\<close>; it leaves out \<^verbatim>\<open>length\<close> (a number), \<^verbatim>\<open>arguments\<close> and
  \<^verbatim>\<open>caller\<close>, the methods \<^verbatim>\<open>call\<close>, \<^verbatim>\<open>apply\<close>, \<^verbatim>\<open>bind\<close> and \<^verbatim>\<open>toString\<close> of
  \<^verbatim>\<open>Function.prototype\<close>, and the static methods of \<^verbatim>\<open>Object\<close>.
\<close>

definition function_object :: "string \<Rightarrow> (string \<times> property) list \<Rightarrow> object" where
  "function_object n ps =
     \<lparr>own = map_of ((''name'', fixed_property (JStr n)) # ps),
      proto = JRef Function_prototype_addr\<rparr>"

definition initial_objects :: "object list" where
  "initial_objects =
     [\<lparr>own = map_of
         [(''constructor'', data_property (JRef Object_addr)),
          (''toString'', data_property (JRef toString_addr)),
          (''toLocaleString'', data_property (JRef 5)),
          (''valueOf'', data_property (JRef 6)),
          (''hasOwnProperty'', data_property (JRef 7)),
          (''isPrototypeOf'', data_property (JRef 8)),
          (''propertyIsEnumerable'', data_property (JRef 9)),
          (''__defineGetter__'', data_property (JRef 10)),
          (''__defineSetter__'', data_property (JRef 11)),
          (''__lookupGetter__'', data_property (JRef 12)),
          (''__lookupSetter__'', data_property (JRef 13))],
       proto = JNull\<rparr>,
      \<lparr>own = map_of
         [(''constructor'', data_property (JRef Function_addr)),
          (''name'', fixed_property (JStr ''''))],
       proto = JRef Object_prototype_addr\<rparr>,
      function_object ''Object'' [(''prototype'', fixed_property (JRef Object_prototype_addr))],
      function_object ''Function'' [(''prototype'', fixed_property (JRef Function_prototype_addr))],
      function_object ''toString'' [],
      function_object ''toLocaleString'' [],
      function_object ''valueOf'' [],
      function_object ''hasOwnProperty'' [],
      function_object ''isPrototypeOf'' [],
      function_object ''propertyIsEnumerable'' [],
      function_object ''__defineGetter__'' [],
      function_object ''__defineSetter__'' [],
      function_object ''__lookupGetter__'' [],
      function_object ''__lookupSetter__'' [],
      function_object ''Template''
         [(''prototype'', data_property (JRef Template_prototype_addr)),
          (''libs'', data_property (JRef libs_addr))],
      \<lparr>own = map_of
         [(''constructor'', data_property (JRef Template_addr)),
          (''evaluate'', data_property (JRef evaluate_addr)),
          (''require'', data_property (JRef require_addr))],
       proto = JRef Object_prototype_addr\<rparr>,
      function_object '''' [(''prototype'', data_property (JRef 19))],
      function_object '''' [(''prototype'', data_property (JRef 20))],
      \<lparr>own = Map.empty, proto = JRef Object_prototype_addr\<rparr>,
      \<lparr>own = map_of [(''constructor'', data_property (JRef evaluate_addr))],
       proto = JRef Object_prototype_addr\<rparr>,
      \<lparr>own = map_of [(''constructor'', data_property (JRef require_addr))],
       proto = JRef Object_prototype_addr\<rparr>]"

definition initial_world :: "'w \<Rightarrow> 'w world" where
  "initial_world w =
     \<lparr>heap = (\<lambda>a. if a < length initial_objects then initial_objects ! a
                   else \<lparr>own = Map.empty, proto = JNull\<rparr>),
      next_addr = length initial_objects,
      loader = w\<rparr>"

subsection \<open>Property lookup and assignment\<close>

text \<open>
  What the search for a property \<open>k\<close> along a prototype chain ends in: nothing, a data
  property of some object of the chain, or the accessor \<^verbatim>\<open>__proto__\<close>, which
  \<^verbatim>\<open>Object.prototype\<close> carries.
\<close>

datatype found = Missing | Data property | Proto_accessor

text \<open>
  The search, from a value along the prototypes. A chain has no cycle (the setter of
  \<^verbatim>\<open>__proto__\<close> refuses one), so it is no longer than the number of objects: the
  first argument bounds the number of steps.
\<close>

fun find_property :: "nat \<Rightarrow> (addr \<Rightarrow> object) \<Rightarrow> jsval \<Rightarrow> string \<Rightarrow> found" where
  "find_property 0 h v k = Missing"
| "find_property (Suc n) h (JRef a) k =
     (case own (h a) k of
        Some p \<Rightarrow> Data p
      | None \<Rightarrow>
          if a = Object_prototype_addr \<and> k = ''__proto__'' then Proto_accessor
          else find_property n h (proto (h a)) k)"
| "find_property (Suc n) h v k = Missing"

text \<open>Whether the chain that starts at a value passes through the object \<open>a\<close>.\<close>

fun reaches :: "nat \<Rightarrow> (addr \<Rightarrow> object) \<Rightarrow> jsval \<Rightarrow> addr \<Rightarrow> bool" where
  "reaches 0 h v a = False"
| "reaches (Suc n) h (JRef b) a = (if b = a then True else reaches n h (proto (h b)) a)"
| "reaches (Suc n) h v a = False"

text \<open>
  \<^verbatim>\<open>obj[k]\<close> for the object at address \<open>a\<close>: the value of the data property found,
  the prototype of \<open>a\<close> itself when the search ends in the accessor, and
  \<^verbatim>\<open>undefined\<close> when nothing is found.
\<close>

definition js_get :: "'w world \<Rightarrow> addr \<Rightarrow> string \<Rightarrow> jsval" where
  "js_get \<sigma> a k =
     (case find_property (Suc (next_addr \<sigma>)) (heap \<sigma>) (JRef a) k of
        Missing \<Rightarrow> JUndefined
      | Data p \<Rightarrow> pvalue p
      | Proto_accessor \<Rightarrow> proto (heap \<sigma> a))"

text \<open>
  \<^verbatim>\<open>obj[k] = v\<close> for the (extensible) object at address \<open>a\<close>, giving the heap
  afterwards. A read-only data property, the object's own or an inherited one, refuses
  the assignment: a TypeError in strict mode, nothing otherwise. A writable one, or
  none at all, makes \<open>k\<close> a writable own property with the value \<open>v\<close>. When the search
  ends in the accessor, its setter runs: an object or \<^verbatim>\<open>null\<close> becomes the new
  prototype of \<open>a\<close>, unless \<open>a\<close> is \<^verbatim>\<open>Object.prototype\<close> or the chain of the new
  prototype passes through \<open>a\<close> (a TypeError in either mode); a primitive is ignored.
\<close>

definition js_put ::
  "bool \<Rightarrow> 'w world \<Rightarrow> addr \<Rightarrow> string \<Rightarrow> jsval \<Rightarrow> js_error + (addr \<Rightarrow> object)" where
  "js_put strict \<sigma> a k v =
     (let h = heap \<sigma>;
          stored = h(a := (h a)\<lparr>own := (own (h a))(k \<mapsto> \<lparr>pvalue = v, writable = True\<rparr>)\<rparr>)
      in case find_property (Suc (next_addr \<sigma>)) h (JRef a) k of
           Missing \<Rightarrow> Inr stored
         | Data p \<Rightarrow>
             if writable p then Inr stored
             else if strict then Inl (ReadOnly k)
             else Inr h
         | Proto_accessor \<Rightarrow>
             (case v of
                JRef b \<Rightarrow>
                  if a = Object_prototype_addr \<or> reaches (Suc (next_addr \<sigma>)) h (JRef b) a
                  then Inl ProtoRefused
                  else Inr (h(a := (h a)\<lparr>proto := JRef b\<rparr>))
              | JNull \<Rightarrow> Inr (h(a := (h a)\<lparr>proto := JNull\<rparr>))
              | _ \<Rightarrow> Inr h))"

text \<open>The assignment as an expression: it has the value \<open>v\<close>.\<close>

definition js_assign ::
  "bool \<Rightarrow> addr \<Rightarrow> string \<Rightarrow> jsval \<Rightarrow> 'w world \<Rightarrow> (js_error + jsval) \<times> 'w world" where
  "js_assign strict a k v \<sigma> =
     (case js_put strict \<sigma> a k v of
        Inl e \<Rightarrow> (Inl e, \<sigma>)
      | Inr h \<Rightarrow> (Inr v, \<sigma>\<lparr>heap := h\<rparr>))"

text \<open>\<^verbatim>\<open>this[k]\<close> for an instance at address \<open>a\<close>.\<close>

definition read :: "addr \<Rightarrow> string \<Rightarrow> 'w world \<Rightarrow> jsval" where
  "read a k \<sigma> = js_get \<sigma> a k"

subsection \<open>The constructor\<close>

text \<open>
  Modelled from the spec: \<^verbatim>\<open>prop\<close> of \<^verbatim>\<open>lib/mincer/common.js\<close>, which is not among
  the sources. The spec has the constructor store \<^verbatim>\<open>file\<close> "as a read-only attribute"
  and \<^verbatim>\<open>data\<close> "as a mutable attribute"; the two calls differ in the options object
  \<^verbatim>\<open>{writable: true}\<close> only. So \<open>prop_common obj name value options\<close> defines the own property
  \<open>name\<close> of \<open>obj\<close> with the value given, writable when the options say so and
  read-only when there are none (\<open>None\<close>).
\<close>

definition prop_common :: "props \<Rightarrow> string \<Rightarrow> jsval \<Rightarrow> bool option \<Rightarrow> props" where
  "prop_common obj name v options =
     obj(name \<mapsto> \<lparr>pvalue = v, writable = (case options of None \<Rightarrow> False | Some w \<Rightarrow> w)\<rparr>)"

text \<open>\<^verbatim>\<open>function Template(file, data)\<close>, lines 40-52, acting on \<^verbatim>\<open>this\<close>.\<close>

definition Template :: "props \<Rightarrow> jsval \<Rightarrow> jsval \<Rightarrow> props" where
  "Template this file dat =
     prop_common (prop_common this ''data'' dat (Some True)) ''file'' file None"

text \<open>
  \<^verbatim>\<open>new C(file, data)\<close>, where \<open>C\<close> is the address of \<^verbatim>\<open>Template\<close> or of a constructor
  whose body is \<^verbatim>\<open>Template.apply(this, arguments)\<close>, the file's documented way to
  subclass: a fresh object without own properties, whose prototype is the object
  \<^verbatim>\<open>C.prototype\<close> (\<^verbatim>\<open>Object.prototype\<close> when that is no object), on which the
  body of \<^verbatim>\<open>Template\<close> runs. An argument left out is \<^verbatim>\<open>undefined\<close>.
\<close>

definition js_new :: "addr \<Rightarrow> jsval \<Rightarrow> jsval \<Rightarrow> 'w world \<Rightarrow> addr \<times> 'w world" where
  "js_new C file dat \<sigma> =
     (let a = next_addr \<sigma>;
          p = (case js_get \<sigma> C ''prototype'' of
                 JRef q \<Rightarrow> JRef q
               | _ \<Rightarrow> JRef Object_prototype_addr)
      in (a, \<sigma>\<lparr>heap := (heap \<sigma>)(a := \<lparr>own = Template Map.empty file dat, proto = p\<rparr>),
               next_addr := Suc a\<rparr>))"

text \<open>
  Two ways to declare a subclass named \<open>n\<close>, both starting with
  \<^verbatim>\<open>function n() { Template.apply(this, arguments); }\<close>. With \<open>True\<close>, the documented
  one, \<^verbatim>\<open>require('util').inherits(n, Template)\<close>: the prototype of the subclass is a new
  object that inherits from \<^verbatim>\<open>Template.prototype\<close> and has \<^verbatim>\<open>constructor\<close> set to
  the subclass, which gets \<^verbatim>\<open>super_\<close>. With \<open>False\<close>,
  \<^verbatim>\<open>n.prototype = Object.create(Template.prototype)\<close>: the new object has no property
  of its own. Both read \<^verbatim>\<open>Template.prototype\<close> when they run;
  \<^verbatim>\<open>Object.create\<close> throws a TypeError unless that is an object or \<^verbatim>\<open>null\<close>.
\<close>

definition define_subclass ::
  "bool \<Rightarrow> string \<Rightarrow> 'w world \<Rightarrow> js_error + (addr \<times> 'w world)" where
  "define_subclass documented n \<sigma> =
     (let c = next_addr \<sigma>;
          p = Suc c;
          super_proto = js_get \<sigma> Template_addr ''prototype'';
          made = \<sigma>\<lparr>heap := (heap \<sigma>)
                     (c := function_object n
                             ((''prototype'', data_property (JRef p)) #
                              (if documented then [(''super_'', data_property (JRef Template_addr))]
                               else [])),
                      p := \<lparr>own = (if documented then [''constructor'' \<mapsto> data_property (JRef c)]
                                   else Map.empty),
                            proto = super_proto\<rparr>),
                   next_addr := Suc p\<rparr>
      in case super_proto of
           JRef q \<Rightarrow> Inr (c, made)
         | JNull \<Rightarrow> Inr (c, made)
         | _ \<Rightarrow> Inl (NoObject ''prototype''))"

subsection \<open>Template.prototype.evaluate\<close>

text \<open>
  \<^verbatim>\<open>this.constructor.name\<close>: \<^verbatim>\<open>constructor\<close> is looked up in the instance and along
  its prototypes; reading \<^verbatim>\<open>name\<close> of \<^verbatim>\<open>undefined\<close> or \<^verbatim>\<open>null\<close> throws a TypeError;
  \<^verbatim>\<open>name\<close> of an object is looked up in it and along its prototypes; for a string or
  a boolean the lookup goes through \<^verbatim>\<open>String.prototype\<close> or \<^verbatim>\<open>Boolean.prototype\<close>,
  which have no \<^verbatim>\<open>name\<close>, to \<^verbatim>\<open>Object.prototype\<close>.
\<close>

definition constructor_name :: "'w world \<Rightarrow> addr \<Rightarrow> js_error + jsval" where
  "constructor_name \<sigma> this =
     (case js_get \<sigma> this ''constructor'' of
        JUndefined \<Rightarrow> Inl (NoObject ''name'')
      | JNull \<Rightarrow> Inl (NoObject ''name'')
      | JRef c \<Rightarrow> Inr (js_get \<sigma> c ''name'')
      | _ \<Rightarrow> Inr (js_get \<sigma> Object_prototype_addr ''name''))"

text \<open>Lines 73-76. The function declares no parameter: the two arguments are ignored.\<close>

definition Template_evaluate ::
  "addr \<Rightarrow> jsval \<Rightarrow> jsval \<Rightarrow> 'w world \<Rightarrow> (js_error + jsval) \<times> 'w world" where
  "Template_evaluate this context locals \<sigma> =
     (case constructor_name \<sigma> this of
        Inl e \<Rightarrow> (Inl e, \<sigma>)
      | Inr n \<Rightarrow>
          (Inl (Error (ToString (js_or n (JStr '''')) @ ''#evaluate() is not implemented.'')),
           \<sigma>))"

subsection \<open>Template.libs\<close>

text \<open>
  Line 88: \<^verbatim>\<open>Template.libs = {}\<close>, an ordinary object that is the value of a property
  of the function \<^verbatim>\<open>Template\<close>. \<^verbatim>\<open>Template.libs[k]\<close> reads that property and then the
  key; on \<^verbatim>\<open>undefined\<close> or \<^verbatim>\<open>null\<close> it throws a TypeError. (A string or a boolean in
  the place of the registry has properties of its own kind, which the model does not
  carry: only what it inherits from \<^verbatim>\<open>Object.prototype\<close> is looked up.)
\<close>

definition libs_get :: "string \<Rightarrow> 'w world \<Rightarrow> js_error + jsval" where
  "libs_get k \<sigma> =
     (case js_get \<sigma> Template_addr ''libs'' of
        JRef r \<Rightarrow> Inr (js_get \<sigma> r k)
      | JUndefined \<Rightarrow> Inl (NoObject k)
      | JNull \<Rightarrow> Inl (NoObject k)
      | _ \<Rightarrow> Inr (js_get \<sigma> Object_prototype_addr k))"

text \<open>
  \<^verbatim>\<open>Template.libs[k] = v\<close>. An assignment to a property of a string or a boolean
  stores nothing; in strict mode it throws a TypeError.
\<close>

definition libs_set ::
  "bool \<Rightarrow> string \<Rightarrow> jsval \<Rightarrow> 'w world \<Rightarrow> (js_error + jsval) \<times> 'w world" where
  "libs_set strict k v \<sigma> =
     (case js_get \<sigma> Template_addr ''libs'' of
        JRef r \<Rightarrow> js_assign strict r k v \<sigma>
      | JUndefined \<Rightarrow> (Inl (NoObject k), \<sigma>)
      | JNull \<Rightarrow> (Inl (NoObject k), \<sigma>)
      | _ \<Rightarrow> (if strict then Inl (NoObject k) else Inr v, \<sigma>))"

subsection \<open>Template.prototype.require\<close>

text \<open>
  Lines 102-109. \<^verbatim>\<open>require\<close> is the loader that Node hands to the module: the first
  argument here. It returns a module's exports or throws, and may change the world.
  The \<^verbatim>\<open>catch\<close> clause never looks at \<^verbatim>\<open>err\<close>; it reads \<^verbatim>\<open>this.file\<close> after the
  loader has run.
\<close>

definition Template_require ::
  "(string \<Rightarrow> 'w world \<Rightarrow> (js_error + jsval) \<times> 'w world) \<Rightarrow>
   addr \<Rightarrow> string \<Rightarrow> 'w world \<Rightarrow> (js_error + jsval) \<times> 'w world" where
  "Template_require native_require this name \<sigma> =
     (case native_require name \<sigma> of
        (Inr m, \<sigma>') \<Rightarrow> (Inr m, \<sigma>')
      | (Inl err, \<sigma>') \<Rightarrow>
          (Inl (Error (''Cannot find module `'' @ name @ ''` required for file ''
                       @ [CHR 0x27] @ ToString (read this ''file'' \<sigma>') @ [CHR 0x27])),
           \<sigma>'))"

subsection \<open>Node's module loader\<close>

text \<open>
  The code of a module, as far as it bears on this file: statements that assign to an
  entry of \<^verbatim>\<open>Template.libs\<close>, delete an entry of \<^verbatim>\<open>require.cache\<close>, or assign to a
  property of an object; then the module throws, or leaves as its exports the object
  that Node made for it, or another value.
\<close>

datatype module_stmt =
    Register bool string jsval
  | Evict string
  | Put bool addr string jsval

datatype module_end = Throw js_error | Export_object | Export jsval

record module_source =
  body :: "module_stmt list"
  ending :: module_end

record modules =
  installed :: "string \<rightharpoonup> module_source"
  cache :: "string \<rightharpoonup> jsval"

definition exec_stmt ::
  "module_stmt \<Rightarrow> modules world \<Rightarrow> (js_error + jsval) \<times> modules world" where
  "exec_stmt s \<sigma> =
     (case s of
        Register strict k v \<Rightarrow> libs_set strict k v \<sigma>
      | Evict n \<Rightarrow> (Inr (JBool True), \<sigma>\<lparr>loader := (loader \<sigma>)\<lparr>cache := (cache (loader \<sigma>))(n := None)\<rparr>\<rparr>)
      | Put strict a k v \<Rightarrow> js_assign strict a k v \<sigma>)"

text \<open>The statements in order, up to the first that throws.\<close>

fun exec_body :: "module_stmt list \<Rightarrow> modules world \<Rightarrow> js_error option \<times> modules world" where
  "exec_body [] \<sigma> = (None, \<sigma>)"
| "exec_body (s # ss) \<sigma> =
     (case exec_stmt s \<sigma> of
        (Inl e, \<sigma>') \<Rightarrow> (Some e, \<sigma>')
      | (Inr v, \<sigma>') \<Rightarrow> exec_body ss \<sigma>')"

text \<open>A fresh ordinary object, as \<^verbatim>\<open>{}\<close> makes one.\<close>

definition new_object :: "'w world \<Rightarrow> addr \<times> 'w world" where
  "new_object \<sigma> =
     (next_addr \<sigma>,
      \<sigma>\<lparr>heap := (heap \<sigma>)(next_addr \<sigma> := \<lparr>own = Map.empty, proto = JRef Object_prototype_addr\<rparr>),
        next_addr := Suc (next_addr \<sigma>)\<rparr>)"

text \<open>
  Node's \<^verbatim>\<open>require\<close>, as its documentation describes it. A module that is in
  \<^verbatim>\<open>require.cache\<close> is served from there. Otherwise the name is resolved, which
  fails with "Cannot find module" when nothing is installed under it. Otherwise the
  module's code runs, each time with a new exports object. Node enters the module
  into the cache before its code runs and removes it again when the code throws: so
  a module that has loaded is cached, unless its own code deleted its entry.
\<close>

definition node_require ::
  "string \<Rightarrow> modules world \<Rightarrow> (js_error + jsval) \<times> modules world" where
  "node_require name \<sigma> =
     (case cache (loader \<sigma>) name of
        Some m \<Rightarrow> (Inr m, \<sigma>)
      | None \<Rightarrow>
          (case installed (loader \<sigma>) name of
             None \<Rightarrow> (Inl (Error (''Cannot find module '' @ [CHR 0x27] @ name @ [CHR 0x27])), \<sigma>)
           | Some src \<Rightarrow>
               (let (m, \<sigma>1) = (case ending src of
                                 Export_object \<Rightarrow> (case new_object \<sigma> of (a, \<tau>) \<Rightarrow> (JRef a, \<tau>))
                               | Export v \<Rightarrow> (v, \<sigma>)
                               | Throw e \<Rightarrow> (JUndefined, \<sigma>))
                in case exec_body (body src) \<sigma>1 of
                     (Some e, \<sigma>2) \<Rightarrow> (Inl e, \<sigma>2)
                   | (None, \<sigma>2) \<Rightarrow>
                       (case ending src of
                          Throw e \<Rightarrow> (Inl e, \<sigma>2)
                        | _ \<Rightarrow>
                            (Inr m,
                             if Evict name \<in> set (body src) then \<sigma>2
                             else \<sigma>2\<lparr>loader := (loader \<sigma>2)
                                       \<lparr>cache := (cache (loader \<sigma>2))(name \<mapsto> m)\<rparr>\<rparr>)))))"

subsection \<open>Programs over the interface\<close>

text \<open>
  What a caller can do with the objects of this file: declare a subclass, construct
  an instance, call the base \<^verbatim>\<open>evaluate\<close> and \<^verbatim>\<open>require\<close> on an object (the loader
  being Node's), assign to a property of any object, assign to an entry of
  \<^verbatim>\<open>Template.libs\<close>. A caller that catches what an operation throws goes on in the
  world the operation left.
\<close>

datatype action =
    Subclass bool string
  | New addr jsval jsval
  | Evaluate addr jsval jsval
  | Require addr string
  | Assign bool addr string jsval
  | LibsSet bool string jsval

fun perform :: "action \<Rightarrow> modules world \<Rightarrow> modules world" where
  "perform (Subclass documented n) \<sigma> =
     (case define_subclass documented n \<sigma> of Inl e \<Rightarrow> \<sigma> | Inr (c, \<sigma>') \<Rightarrow> \<sigma>')"
| "perform (New C file dat) \<sigma> = snd (js_new C file dat \<sigma>)"
| "perform (Evaluate a context locals) \<sigma> = snd (Template_evaluate a context locals \<sigma>)"
| "perform (Require a name) \<sigma> = snd (Template_require node_require a name \<sigma>)"
| "perform (Assign strict a k v) \<sigma> = snd (js_assign strict a k v \<sigma>)"
| "perform (LibsSet strict k v) \<sigma> = snd (libs_set strict k v \<sigma>)"

fun run :: "action list \<Rightarrow> modules world \<Rightarrow> modules world" where
  "run [] \<sigma> = \<sigma>"
| "run (act # acts) \<sigma> = run acts (perform act \<sigma>)"

subsection \<open>States of the heap that the properties speak of\<close>

text \<open>
  The object at \<open>a\<close> is allocated and has a read-only own property \<^verbatim>\<open>file\<close> with the
  value \<open>f\<close>.
\<close>

definition has_file :: "addr \<Rightarrow> jsval \<Rightarrow> 'w world \<Rightarrow> bool" where
  "has_file a f \<sigma> =
     (a < next_addr \<sigma> \<and> own (heap \<sigma> a) ''file'' = Some \<lparr>pvalue = f, writable = False\<rparr>)"

text \<open>
  \<^verbatim>\<open>Template.libs\<close> is the object at \<open>r\<close>; that object inherits from
  \<^verbatim>\<open>Object.prototype\<close> directly, as an object made by \<^verbatim>\<open>{}\<close> does until its
  \<^verbatim>\<open>__proto__\<close> is assigned; and neither of the two has a read-only property.
\<close>

definition plain_registry :: "addr \<Rightarrow> 'w world \<Rightarrow> bool" where
  "plain_registry r \<sigma> =
     (own (heap \<sigma> Template_addr) ''libs'' = Some \<lparr>pvalue = JRef r, writable = True\<rparr>
      \<and> r \<noteq> Template_addr \<and> r \<noteq> Object_prototype_addr
      \<and> proto (heap \<sigma> r) = JRef Object_prototype_addr
      \<and> proto (heap \<sigma> Object_prototype_addr) = JNull
      \<and> 0 < next_addr \<sigma>
      \<and> (\<forall>k p. own (heap \<sigma> r) k = Some p \<longrightarrow> writable p)
      \<and> (\<forall>k p. own (heap \<sigma> Object_prototype_addr) k = Some p \<longrightarrow> writable p))"

text \<open>
  The module \<open>name\<close> is in the cache with the exports \<open>m\<close>, and no installed module has a
  statement that deletes it from the cache.
\<close>

definition cached_for_good :: "string \<Rightarrow> jsval \<Rightarrow> modules world \<Rightarrow> bool" where
  "cached_for_good name m \<sigma> =
     (cache (loader \<sigma>) name = Some m
      \<and> (\<forall>n src. installed (loader \<sigma>) n = Some src \<longrightarrow> Evict name \<notin> set (body src)))"


subsection \<open>Concrete worlds\<close>

text \<open>
  A loader that knows four modules: one that loads, one whose source has a syntax
  error, one that enters a library into \<^verbatim>\<open>Template.libs\<close> while it loads, and one
  that deletes itself from \<^verbatim>\<open>require.cache\<close>. The world after
  \<^verbatim>\<open>new Template("a.tpl", "hello")\<close>, whose instance has the address \<open>21\<close>. And the
  worlds after a subclass has been declared, in one of the two ways and with the name
  given, and \<^verbatim>\<open>new\<close> has made an instance of it: the subclass has the address \<open>21\<close>,
  its prototype \<open>22\<close>, the instance \<open>23\<close>.
\<close>

definition example_modules :: modules where
  "example_modules =
     \<lparr>installed =
        [''ejs'' \<mapsto> \<lparr>body = [], ending = Export_object\<rparr>,
         ''broken'' \<mapsto> \<lparr>body = [], ending = Throw (Thrown ''SyntaxError'' ''Unexpected token'')\<rparr>,
         ''registers'' \<mapsto> \<lparr>body = [Register False ''foo'' (JStr ''bar'')], ending = Export_object\<rparr>,
         ''volatile'' \<mapsto> \<lparr>body = [Evict ''volatile''], ending = Export_object\<rparr>],
      cache = Map.empty\<rparr>"

definition example_world :: "modules world" where
  "example_world =
     snd (js_new Template_addr (JStr ''a.tpl'') (JStr ''hello'') (initial_world example_modules))"

definition subclass_world :: "bool \<Rightarrow> string \<Rightarrow> modules world" where
  "subclass_world documented n =
     (case define_subclass documented n (initial_world example_modules) of
        Inl e \<Rightarrow> initial_world example_modules
      | Inr (c, \<sigma>) \<Rightarrow> snd (js_new c (JStr ''a.tpl'') (JStr ''hello'') \<sigma>))"

section \<open>Properties\<close>

subsection \<open>Lookup and assignment\<close>

lemma find_property_own:
  "own (h a) k = Some p \<Longrightarrow> find_property (Suc n) h (JRef a) k = Data p"
  by simp

lemma js_get_own: "own (heap \<sigma> a) k = Some p \<Longrightarrow> js_get \<sigma> a k = pvalue p"
  by (simp add: js_get_def)

lemma js_put_keeps_file:
  assumes "own (heap \<sigma> a) ''file'' = Some \<lparr>pvalue = f, writable = False\<rparr>"
    and "js_put strict \<sigma> b k v = Inr h"
  shows "own (h a) ''file'' = Some \<lparr>pvalue = f, writable = False\<rparr>"
proof (cases "b = a \<and> k = ''file''")
  case True
  with assms(1) have "find_property (Suc (next_addr \<sigma>)) (heap \<sigma>) (JRef b) k
      = Data \<lparr>pvalue = f, writable = False\<rparr>"
    by simp
  with assms(2) have "h = heap \<sigma>"
    by (simp add: js_put_def Let_def split: if_splits)
  with assms(1) show ?thesis by simp
next
  case False
  with assms show ?thesis
    by (auto simp add: js_put_def Let_def split: found.splits if_splits jsval.splits)
qed

lemma js_assign_has_file:
  "has_file a f \<sigma> \<Longrightarrow> has_file a f (snd (js_assign strict b k v \<sigma>))"
  by (auto simp add: has_file_def js_assign_def split: sum.splits dest: js_put_keeps_file)

lemma libs_set_has_file:
  "has_file a f \<sigma> \<Longrightarrow> has_file a f (snd (libs_set strict k v \<sigma>))"
  by (simp add: libs_set_def js_assign_has_file split: jsval.splits)

lemma exec_stmt_has_file:
  "has_file a f \<sigma> \<Longrightarrow> has_file a f (snd (exec_stmt s \<sigma>))"
  by (cases s) (simp_all add: exec_stmt_def js_assign_has_file libs_set_has_file, simp add: has_file_def)

lemma exec_body_has_file:
  "has_file a f \<sigma> \<Longrightarrow> has_file a f (snd (exec_body ss \<sigma>))"
proof (induction ss arbitrary: \<sigma>)
  case Nil
  then show ?case by simp
next
  case (Cons s ss)
  from exec_stmt_has_file [OF Cons.prems, of s]
  show ?case by (auto split: prod.splits sum.splits intro: Cons.IH)
qed

lemma new_object_has_file:
  "has_file a f \<sigma> \<Longrightarrow> has_file a f (snd (new_object \<sigma>))"
  by (simp add: has_file_def new_object_def)

lemma node_require_has_file:
  assumes "has_file a f \<sigma>"
  shows "has_file a f (snd (node_require name \<sigma>))"
proof (cases "cache (loader \<sigma>) name")
  case (Some m)
  with assms show ?thesis by (simp add: node_require_def)
next
  case None
  show ?thesis
  proof (cases "installed (loader \<sigma>) name")
    case None
    with \<open>cache (loader \<sigma>) name = None\<close> assms show ?thesis by (simp add: node_require_def)
  next
    case (Some src)
    define start where "start = (case ending src of
         Export_object \<Rightarrow> (case new_object \<sigma> of (a, \<tau>) \<Rightarrow> (JRef a, \<tau>))
       | Export v \<Rightarrow> (v, \<sigma>)
       | Throw e \<Rightarrow> (JUndefined, \<sigma>))"
    have "has_file a f (snd start)"
      using assms new_object_has_file [OF assms]
      by (cases "ending src") (simp_all add: start_def case_prod_beta)
    then have ran: "has_file a f (snd (exec_body (body src) (snd start)))"
      by (rule exec_body_has_file)
    then have "has_file a f ((snd (exec_body (body src) (snd start)))
        \<lparr>loader := w\<rparr>)" for w
      by (simp add: has_file_def)
    with ran show ?thesis
      using \<open>cache (loader \<sigma>) name = None\<close> Some
      by (auto simp add: node_require_def start_def [symmetric] Let_def
          split: prod.splits option.splits module_end.splits)
  qed
qed

lemma define_subclass_has_file:
  "has_file a f \<sigma> \<Longrightarrow> define_subclass d n \<sigma> = Inr (c, \<sigma>') \<Longrightarrow> has_file a f \<sigma>'"
  by (auto simp add: has_file_def define_subclass_def Let_def split: jsval.splits)

lemma perform_has_file:
  assumes "has_file a f \<sigma>"
  shows "has_file a f (perform act \<sigma>)"
proof (cases act)
  case (Subclass d n)
  with assms show ?thesis
    by (auto split: sum.splits dest: define_subclass_has_file)
next
  case (New C fl dat)
  with assms show ?thesis by (simp add: has_file_def js_new_def Let_def)
next
  case (Evaluate b ctx lcl)
  with assms show ?thesis
    by (simp add: Template_evaluate_def split: sum.splits)
next
  case (Require b name)
  have "snd (Template_require node_require b name \<sigma>) = snd (node_require name \<sigma>)"
    by (simp add: Template_require_def split: prod.splits sum.splits)
  with Require node_require_has_file [OF assms, of name] show ?thesis by simp
next
  case (Assign strict b k v)
  with assms show ?thesis by (simp add: js_assign_has_file)
next
  case (LibsSet strict k v)
  with assms show ?thesis by (simp add: libs_set_has_file)
qed

lemma run_has_file: "has_file a f \<sigma> \<Longrightarrow> has_file a f (run acts \<sigma>)"
  by (induction acts arbitrary: \<sigma>) (simp_all add: perform_has_file)

subsection \<open>Construction\<close>

text \<open>
  Claim C2. For every file and data value, \<^verbatim>\<open>new C(file, data)\<close> (for \<^verbatim>\<open>Template\<close>
  and for every constructor that applies it) yields an instance whose \<^verbatim>\<open>file\<close> and
  \<^verbatim>\<open>data\<close> read back as the very values supplied, whatever they are; \<^verbatim>\<open>file\<close> is
  stored read-only and \<^verbatim>\<open>data\<close> writable, these are the only own properties, and an
  assignment to \<^verbatim>\<open>data\<close> takes effect.
\<close>

theorem Template_stores_file_and_data:
  "(case js_new C fl dat \<sigma> of (a, \<sigma>') \<Rightarrow>
      read a ''file'' \<sigma>' = fl
    \<and> read a ''data'' \<sigma>' = dat
    \<and> own (heap \<sigma>' a) ''file'' = Some \<lparr>pvalue = fl, writable = False\<rparr>
    \<and> own (heap \<sigma>' a) ''data'' = Some \<lparr>pvalue = dat, writable = True\<rparr>
    \<and> dom (own (heap \<sigma>' a)) = {''data'', ''file''}
    \<and> read a ''data'' (snd (js_assign strict a ''data'' v \<sigma>')) = v)"
  by (auto simp add: js_new_def Let_def read_def js_get_def Template_def prop_common_def
      js_assign_def js_put_def)

text \<open>The example of the specification: \<^verbatim>\<open>new Template("a.tpl", "hello")\<close>.\<close>

theorem Template_stores_file_and_data_witness:
  "js_new Template_addr (JStr ''a.tpl'') (JStr ''hello'') (initial_world example_modules)
     = (21, example_world)
   \<and> read 21 ''file'' example_world = JStr ''a.tpl''
   \<and> read 21 ''data'' example_world = JStr ''hello''"
proof -
  have new: "js_new Template_addr (JStr ''a.tpl'') (JStr ''hello'') (initial_world example_modules)
     = (21, example_world)"
    by (simp add: example_world_def js_new_def Let_def initial_world_def initial_objects_def)
  from Template_stores_file_and_data
    [where C = Template_addr and fl = "JStr ''a.tpl''" and dat = "JStr ''hello''"
       and \<sigma> = "initial_world example_modules"]
  show ?thesis by (simp add: new)
qed

subsection \<open>The file attribute is immutable\<close>

text \<open>
  Claim C4. The \<^verbatim>\<open>file\<close> of an instance never changes after construction: whatever
  the program does next (calls of \<^verbatim>\<open>evaluate\<close> and \<^verbatim>\<open>require\<close> on any instance,
  assignments to any property of any instance, \<^verbatim>\<open>file\<close> included, in strict mode or
  not, further constructions, writes to the registry), \<^verbatim>\<open>file\<close> still reads as the
  value given to the constructor.
\<close>

theorem file_never_changes:
  "read (fst (js_new C fl dat \<sigma>)) ''file'' (run acts (snd (js_new C fl dat \<sigma>))) = fl"
proof -
  let ?a = "fst (js_new C fl dat \<sigma>)" and ?\<sigma> = "snd (js_new C fl dat \<sigma>)"
  have "has_file ?a fl ?\<sigma>"
    by (simp add: has_file_def js_new_def Let_def Template_def prop_common_def)
  then have "has_file ?a fl (run acts ?\<sigma>)"
    by (rule run_has_file)
  then show ?thesis by (simp add: has_file_def read_def js_get_own)
qed

text \<open>
  On the example: an assignment to \<^verbatim>\<open>file\<close> throws in strict mode, and after both
  kinds of assignment and a call of each method the file is still \<^verbatim>\<open>"a.tpl"\<close>.
\<close>

theorem file_never_changes_witness:
  "fst (js_assign True 21 ''file'' (JStr ''b.tpl'') example_world) = Inl (ReadOnly ''file'')
   \<and> read 21 ''file''
        (run [Assign True 21 ''file'' (JStr ''b.tpl''), Assign False 21 ''file'' (JStr ''c.tpl''),
              Evaluate 21 JUndefined JUndefined, Require 21 ''registers'']
           example_world) = JStr ''a.tpl''"
proof -
  have "fst (js_assign True 21 ''file'' (JStr ''b.tpl'') example_world) = Inl (ReadOnly ''file'')"
    by code_simp
  moreover have "fst (js_new Template_addr (JStr ''a.tpl'') (JStr ''hello'')
      (initial_world example_modules)) = 21"
    by code_simp
  ultimately show ?thesis
    using file_never_changes
      [of Template_addr "JStr ''a.tpl''" "JStr ''hello''" "initial_world example_modules"
        "[Assign True 21 ''file'' (JStr ''b.tpl''), Assign False 21 ''file'' (JStr ''c.tpl''),
          Evaluate 21 JUndefined JUndefined, Require 21 ''registers'']"]
    unfolding example_world_def by simp
qed

subsection \<open>Instances are separate objects\<close>

text \<open>
  Claim C8. Two instances constructed one after the other (with any file values, equal
  or not) are distinct objects: assigning to the \<^verbatim>\<open>data\<close> of either changes that
  instance's \<^verbatim>\<open>data\<close> and leaves the other's \<^verbatim>\<open>data\<close> and \<^verbatim>\<open>file\<close> as constructed.
\<close>

theorem instances_do_not_interfere:
  "(case js_new C1 file1 dat1 \<sigma> of (a1, \<sigma>1) \<Rightarrow>
    case js_new C2 file2 dat2 \<sigma>1 of (a2, \<sigma>2) \<Rightarrow>
    case js_assign strict a1 ''data'' v \<sigma>2 of (r1, \<sigma>3) \<Rightarrow>
    case js_assign strict a2 ''data'' w \<sigma>2 of (r2, \<sigma>4) \<Rightarrow>
      a1 \<noteq> a2
    \<and> read a1 ''data'' \<sigma>3 = v
    \<and> read a2 ''data'' \<sigma>3 = dat2 \<and> read a2 ''file'' \<sigma>3 = file2
    \<and> read a2 ''data'' \<sigma>4 = w
    \<and> read a1 ''data'' \<sigma>4 = dat1 \<and> read a1 ''file'' \<sigma>4 = file1)"
  by (simp add: js_new_def Let_def read_def js_get_def Template_def prop_common_def
      js_assign_def js_put_def)

subsection \<open>The base evaluate\<close>

text \<open>
  Claim C10. When \<^verbatim>\<open>this.constructor.name\<close> evaluates to a falsy value (the empty
  string of an anonymous function, or \<^verbatim>\<open>undefined\<close>, \<^verbatim>\<open>null\<close>, \<^verbatim>\<open>false\<close>), the base
  \<^verbatim>\<open>evaluate\<close> throws an Error whose message is exactly
  \<^verbatim>\<open>#evaluate() is not implemented.\<close>, with nothing in front of the \<^verbatim>\<open>#\<close>.
\<close>

theorem evaluate_nameless_message:
  assumes "constructor_name \<sigma> this = Inr n" and "\<not> truthy n"
  shows "Template_evaluate this context locals \<sigma> =
           (Inl (Error ''#evaluate() is not implemented.''), \<sigma>)"
  using assms by (simp add: Template_evaluate_def js_or_def)

text \<open>
  An instance of a subclass whose constructor is an anonymous function,
  \<^verbatim>\<open>var P = function () { Template.apply(this, arguments); }\<close>, set up with
  \<^verbatim>\<open>util.inherits\<close>.
\<close>

theorem evaluate_nameless_message_witness:
  "constructor_name (subclass_world True '''') 23 = Inr (JStr '''')
   \<and> \<not> truthy (JStr '''')
   \<and> fst (Template_evaluate 23 JUndefined JUndefined (subclass_world True ''''))
     = Inl (Error ''#evaluate() is not implemented.'')"
proof -
  have h: "constructor_name (subclass_world True '''') 23 = Inr (JStr '''')"
    by code_simp
  have f: "\<not> truthy (JStr '''')" by simp
  from evaluate_nameless_message [OF h f, of JUndefined JUndefined] h
  show ?thesis by simp
qed

lemma find_property_step:
  "0 < n \<Longrightarrow>
   find_property n h (JRef a) k =
     (case own (h a) k of
        Some p \<Rightarrow> Data p
      | None \<Rightarrow>
          if a = Object_prototype_addr \<and> k = ''__proto__'' then Proto_accessor
          else find_property (n - 1) h (proto (h a)) k)"
  by (cases n) (auto split: option.splits)












subsection \<open>The require wrapper\<close>

lemma sublist_file_in_message: "sublist f (p @ name @ q @ c @ f @ r)"
proof -
  have "p @ name @ q @ c @ f @ r = (p @ name @ q @ c) @ f @ r" by simp
  then show ?thesis unfolding sublist_def by blast
qed

lemma Template_require_failure:
  "native_require name \<sigma> = (Inl err, \<sigma>') \<Longrightarrow>
   Template_require native_require this name \<sigma> =
     (Inl (Error (''Cannot find module `'' @ name @ ''` required for file ''
                  @ [CHR 0x27] @ ToString (read this ''file'' \<sigma>') @ [CHR 0x27])), \<sigma>')"
  by (simp add: Template_require_def)

lemma Template_require_success:
  "native_require name \<sigma> = (Inr m, \<sigma>') \<Longrightarrow>
   Template_require native_require this name \<sigma> = (Inr m, \<sigma>')"
  by (simp add: Template_require_def)

lemma Template_require_world:
  "snd (Template_require native_require this name \<sigma>) = snd (native_require name \<sigma>)"
  by (simp add: Template_require_def split: prod.splits sum.splits)

text \<open>
  Claim C3. When Node's loader cannot resolve a name (nothing is cached and nothing is
  installed under it), \<^verbatim>\<open>t.require(name)\<close> throws an Error whose message contains the
  name and contains the instance's \<^verbatim>\<open>file\<close> (as a string).
\<close>

theorem require_missing_dependency:
  assumes "cache (loader \<sigma>) name = None" and "installed (loader \<sigma>) name = None"
  shows "\<exists>msg. Template_require node_require this name \<sigma> = (Inl (Error msg), \<sigma>)
           \<and> sublist name msg
           \<and> sublist (ToString (read this ''file'' \<sigma>)) msg"
proof -
  define msg where "msg = ''Cannot find module `'' @ name @ ''` required for file ''
                  @ [CHR 0x27] @ ToString (read this ''file'' \<sigma>) @ [CHR 0x27]"
  from assms have "\<exists>err. node_require name \<sigma> = (Inl err, \<sigma>)"
    by (simp add: node_require_def)
  then obtain err where "node_require name \<sigma> = (Inl err, \<sigma>)" ..
  then have "Template_require node_require this name \<sigma> = (Inl (Error msg), \<sigma>)"
    unfolding msg_def by (rule Template_require_failure)
  moreover have "sublist name msg"
    unfolding msg_def by (rule sublist_appendI)
  moreover have "sublist (ToString (read this ''file'' \<sigma>)) msg"
    unfolding msg_def by (rule sublist_file_in_message)
  ultimately show ?thesis by blast
qed

text \<open>The example of the specification, on the instance for \<^verbatim>\<open>a.tpl\<close>.\<close>

theorem require_missing_dependency_witness:
  "cache (loader example_world) ''definitely-not-installed'' = None
   \<and> installed (loader example_world) ''definitely-not-installed'' = None
   \<and> read 21 ''file'' example_world = JStr ''a.tpl''
   \<and> (\<exists>msg. Template_require node_require 21 ''definitely-not-installed'' example_world
              = (Inl (Error msg), example_world)
          \<and> sublist ''definitely-not-installed'' msg \<and> sublist ''a.tpl'' msg)"
proof -
  have c: "cache (loader example_world) ''definitely-not-installed'' = None"
    by code_simp
  have i: "installed (loader example_world) ''definitely-not-installed'' = None"
    by code_simp
  have f: "read 21 ''file'' example_world = JStr ''a.tpl''"
    by code_simp
  from require_missing_dependency [OF c i, of 21] c i f
  show ?thesis by simp
qed

text \<open>
  Claim C9. Whatever the loader is and whatever it throws for a name (a module that is
  not found, or one that is found and throws while it initialises), \<^verbatim>\<open>t.require(name)\<close>
  throws a new Error whose message is
  \<^verbatim>\<open>Cannot find module `<name>` required for file '<file>'\<close>: nothing of the original
  error is kept.
\<close>

theorem require_replaces_any_loader_error:
  assumes "native_require name \<sigma> = (Inl err, \<sigma>')"
  shows "Template_require native_require this name \<sigma> =
     (Inl (Error (''Cannot find module `'' @ name @ ''` required for file ''
                  @ [CHR 0x27] @ ToString (read this ''file'' \<sigma>') @ [CHR 0x27])), \<sigma>')"
  using assms by (rule Template_require_failure)

text \<open>A module that is installed and whose source has a syntax error.\<close>

theorem require_replaces_any_loader_error_witness:
  "node_require ''broken'' example_world
     = (Inl (Thrown ''SyntaxError'' ''Unexpected token''), example_world)
   \<and> fst (Template_require node_require 21 ''broken'' example_world)
     = Inl (Error (''Cannot find module `broken` required for file ''
                   @ [CHR 0x27] @ ''a.tpl'' @ [CHR 0x27]))"
proof -
  have c: "cache (loader example_world) ''broken'' = None"
    by code_simp
  have i: "installed (loader example_world) ''broken''
      = Some \<lparr>body = [], ending = Throw (Thrown ''SyntaxError'' ''Unexpected token'')\<rparr>"
    by (simp add: example_world_def js_new_def Let_def initial_world_def example_modules_def)
  from c i have h: "node_require ''broken'' example_world
     = (Inl (Thrown ''SyntaxError'' ''Unexpected token''), example_world)"
    by (simp add: node_require_def)
  have f: "read 21 ''file'' example_world = JStr ''a.tpl''"
    by code_simp
  from require_replaces_any_loader_error [of node_require, OF h, of 21] h f
  show ?thesis by simp
qed

lemma exec_stmt_loader:
  "installed (loader (snd (exec_stmt s \<sigma>))) = installed (loader \<sigma>)
   \<and> (s \<noteq> Evict name \<longrightarrow> cache (loader (snd (exec_stmt s \<sigma>))) name = cache (loader \<sigma>) name)"
  by (cases s)
    (auto simp add: exec_stmt_def libs_set_def js_assign_def split: jsval.splits sum.splits)

lemma exec_body_loader:
  "installed (loader (snd (exec_body ss \<sigma>))) = installed (loader \<sigma>)
   \<and> (Evict name \<notin> set ss \<longrightarrow> cache (loader (snd (exec_body ss \<sigma>))) name = cache (loader \<sigma>) name)"
proof (induction ss arbitrary: \<sigma>)
  case Nil
  show ?case by simp
next
  case (Cons s ss)
  from exec_stmt_loader [of s \<sigma> name] Cons.IH [of "snd (exec_stmt s \<sigma>)"]
  show ?case by (auto split: prod.splits sum.splits)
qed

lemma node_require_cached:
  "cache (loader \<sigma>) name = Some m \<Longrightarrow> node_require name \<sigma> = (Inr m, \<sigma>)"
  by (simp add: node_require_def)

lemma node_require_cached_for_good:
  assumes "cached_for_good name m \<sigma>"
  shows "cached_for_good name m (snd (node_require other \<sigma>))"
proof (cases "cache (loader \<sigma>) other")
  case (Some x)
  with assms show ?thesis by (simp add: node_require_def)
next
  case None
  show ?thesis
  proof (cases "installed (loader \<sigma>) other")
    case None
    with \<open>cache (loader \<sigma>) other = None\<close> assms show ?thesis by (simp add: node_require_def)
  next
    case (Some src)
    from assms None have ne: "other \<noteq> name"
      by (auto simp add: cached_for_good_def)
    from assms Some have nev: "Evict name \<notin> set (body src)"
      by (simp add: cached_for_good_def)
    define start where "start = (case ending src of
         Export_object \<Rightarrow> (case new_object \<sigma> of (a, \<tau>) \<Rightarrow> (JRef a, \<tau>))
       | Export v \<Rightarrow> (v, \<sigma>)
       | Throw e \<Rightarrow> (JUndefined, \<sigma>))"
    have "loader (snd start) = loader \<sigma>"
      by (cases "ending src") (simp_all add: start_def new_object_def)
    with exec_body_loader [of "body src" "snd start" name] nev assms
    have ran: "cached_for_good name m (snd (exec_body (body src) (snd start)))"
      by (simp add: cached_for_good_def)
    with ne have "cached_for_good name m ((snd (exec_body (body src) (snd start)))
        \<lparr>loader := (loader (snd (exec_body (body src) (snd start))))
           \<lparr>cache := (cache (loader (snd (exec_body (body src) (snd start)))))(other \<mapsto> x)\<rparr>\<rparr>)"
      for x
      by (simp add: cached_for_good_def)
    with ran show ?thesis
      using \<open>cache (loader \<sigma>) other = None\<close> Some
      by (auto simp add: node_require_def start_def [symmetric] Let_def
          split: prod.splits option.splits module_end.splits)
  qed
qed

lemma perform_cached_for_good:
  assumes "cached_for_good name m \<sigma>"
  shows "cached_for_good name m (perform act \<sigma>)"
proof (cases act)
  case (Subclass d n)
  with assms show ?thesis
    by (auto simp add: cached_for_good_def define_subclass_def Let_def
        split: sum.splits jsval.splits)
next
  case (New C fl dat)
  with assms show ?thesis by (simp add: cached_for_good_def js_new_def Let_def)
next
  case (Evaluate b ctx lcl)
  with assms show ?thesis
    by (simp add: Template_evaluate_def split: sum.splits)
next
  case (Require b other)
  with node_require_cached_for_good [OF assms, of other] show ?thesis
    by (simp add: Template_require_world)
next
  case (Assign strict b k v)
  with assms show ?thesis
    by (simp add: cached_for_good_def js_assign_def split: sum.splits)
next
  case (LibsSet strict k v)
  with assms show ?thesis
    by (simp add: cached_for_good_def libs_set_def js_assign_def split: sum.splits jsval.splits)
qed

lemma run_cached_for_good:
  "cached_for_good name m \<sigma> \<Longrightarrow> cached_for_good name m (run acts \<sigma>)"
  by (induction acts arbitrary: \<sigma>) (simp_all add: perform_cached_for_good)

lemma node_require_enters_cache:
  assumes "node_require name \<sigma> = (Inr m, \<sigma>')"
    and "\<forall>n src. installed (loader \<sigma>) n = Some src \<longrightarrow> Evict name \<notin> set (body src)"
  shows "cached_for_good name m \<sigma>'"
proof (cases "cache (loader \<sigma>) name")
  case (Some x)
  with assms show ?thesis by (simp add: node_require_def cached_for_good_def)
next
  case None
  with assms(1) obtain src where src: "installed (loader \<sigma>) name = Some src"
    by (auto simp add: node_require_def split: option.splits)
  with assms(2) have nev: "Evict name \<notin> set (body src)" by simp
  define start where "start = (case ending src of
       Export_object \<Rightarrow> (case new_object \<sigma> of (a, \<tau>) \<Rightarrow> (JRef a, \<tau>))
     | Export v \<Rightarrow> (v, \<sigma>)
     | Throw e \<Rightarrow> (JUndefined, \<sigma>))"
  have "loader (snd start) = loader \<sigma>"
    by (cases "ending src") (simp_all add: start_def new_object_def)
  with exec_body_loader [of "body src" "snd start" name]
  have "installed (loader (snd (exec_body (body src) (snd start)))) = installed (loader \<sigma>)"
    by simp
  with assms None src nev show ?thesis
    by (auto simp add: node_require_def start_def [symmetric] Let_def cached_for_good_def
        split: prod.splits option.splits module_end.splits)
qed

text \<open>
  Claim C5, as amended. \<^verbatim>\<open>t.require(name)\<close> returns the very reference the loader
  returns, in the world the loader leaves, whatever the loader. With Node's loader,
  when the name loads and no installed module has code that deletes it from
  \<^verbatim>\<open>require.cache\<close>, a second call, from any object, at once or after any further
  operations, returns the same reference.
\<close>

theorem require_returns_module_amended:
  "(native_require name \<tau> = (Inr x, \<tau>') \<longrightarrow>
      Template_require native_require this name \<tau> = (Inr x, \<tau>'))
   \<and> (node_require name \<sigma> = (Inr m, \<sigma>')
        \<and> (\<forall>n src. installed (loader \<sigma>) n = Some src \<longrightarrow> Evict name \<notin> set (body src))
      \<longrightarrow> Template_require node_require this name \<sigma> = (Inr m, \<sigma>')
          \<and> Template_require node_require that name \<sigma>' = (Inr m, \<sigma>')
          \<and> fst (Template_require node_require that name (run acts \<sigma>')) = Inr m)"
proof -
  have "Template_require native_require this name \<tau> = (Inr x, \<tau>')"
    if "native_require name \<tau> = (Inr x, \<tau>')"
    using that by (rule Template_require_success)
  moreover have "Template_require node_require this name \<sigma> = (Inr m, \<sigma>')
       \<and> Template_require node_require that name \<sigma>' = (Inr m, \<sigma>')
       \<and> fst (Template_require node_require that name (run acts \<sigma>')) = Inr m"
    if load: "node_require name \<sigma> = (Inr m, \<sigma>')"
      and nev: "\<forall>n src. installed (loader \<sigma>) n = Some src \<longrightarrow> Evict name \<notin> set (body src)"
  proof -
    from load have first: "Template_require node_require this name \<sigma> = (Inr m, \<sigma>')"
      by (rule Template_require_success)
    from load nev have good: "cached_for_good name m \<sigma>'"
      by (rule node_require_enters_cache)
    then have "node_require name \<sigma>' = (Inr m, \<sigma>')"
      by (simp add: cached_for_good_def node_require_cached)
    then have again: "Template_require node_require that name \<sigma>' = (Inr m, \<sigma>')"
      by (rule Template_require_success)
    from good have "cached_for_good name m (run acts \<sigma>')"
      by (rule run_cached_for_good)
    then have "node_require name (run acts \<sigma>') = (Inr m, run acts \<sigma>')"
      by (simp add: cached_for_good_def node_require_cached)
    then have "Template_require node_require that name (run acts \<sigma>') = (Inr m, run acts \<sigma>')"
      by (rule Template_require_success)
    with first again show ?thesis by simp
  qed
  ultimately show ?thesis by blast
qed

text \<open>The module \<^verbatim>\<open>ejs\<close>, required again at once and after two other modules.\<close>

theorem require_returns_module_amended_witness:
  "fst (node_require ''ejs'' example_world) = Inr (JRef 22)
   \<and> fst (Template_require node_require 21 ''ejs'' example_world) = Inr (JRef 22)
   \<and> fst (Template_require node_require 21 ''ejs''
            (snd (Template_require node_require 21 ''ejs'' example_world))) = Inr (JRef 22)
   \<and> fst (Template_require node_require 21 ''ejs''
            (run [Require 21 ''volatile'', Require 21 ''registers'']
               (snd (Template_require node_require 21 ''ejs'' example_world)))) = Inr (JRef 22)"
proof -
  have "fst (node_require ''ejs'' example_world) = Inr (JRef 22)"
    by code_simp
  then obtain \<sigma>' where h: "node_require ''ejs'' example_world = (Inr (JRef 22), \<sigma>')"
    by (cases "node_require ''ejs'' example_world") simp
  have "loader example_world = example_modules"
    by (simp add: example_world_def js_new_def Let_def initial_world_def)
  then have n: "\<forall>n src. installed (loader example_world) n = Some src \<longrightarrow>
      Evict ''ejs'' \<notin> set (body src)"
    by (auto simp add: example_modules_def split: if_splits)
  from require_returns_module_amended
    [where \<sigma> = example_world and name = "''ejs''" and m = "JRef 22" and \<sigma>' = \<sigma>'
       and this = 21 and that = 21
       and acts = "[Require 21 ''volatile'', Require 21 ''registers'']"
       and native_require = node_require and \<tau> = example_world and x = "JRef 22"
       and \<tau>' = \<sigma>']
    h n
  have "Template_require node_require 21 ''ejs'' example_world = (Inr (JRef 22), \<sigma>')
      \<and> Template_require node_require 21 ''ejs'' \<sigma>' = (Inr (JRef 22), \<sigma>')
      \<and> fst (Template_require node_require 21 ''ejs''
            (run [Require 21 ''volatile'', Require 21 ''registers''] \<sigma>')) = Inr (JRef 22)"
    by blast
  with h show ?thesis by simp
qed

text \<open>
  The claim as stated fails: the module \<^verbatim>\<open>volatile\<close> resolves and loads, its code
  deletes its own entry of \<^verbatim>\<open>require.cache\<close>, and two calls of
  \<^verbatim>\<open>t.require("volatile")\<close> return two different objects.
\<close>

theorem require_returns_module_counterexample:
  "fst (Template_require node_require 21 ''volatile'' example_world) = Inr (JRef 22)
   \<and> fst (Template_require node_require 21 ''volatile''
            (snd (Template_require node_require 21 ''volatile'' example_world))) = Inr (JRef 23)
   \<and> JRef 22 \<noteq> JRef 23"
  by code_simp

subsection \<open>The library registry\<close>

lemma find_property_null: "find_property n h JNull k = Missing"
  by (cases n) simp_all

lemma plain_registry_absent:
  assumes "plain_registry r \<sigma>" and "k \<noteq> ''__proto__''"
    and "own (heap \<sigma> r) k = None" and "own (heap \<sigma> Object_prototype_addr) k = None"
  shows "libs_get k \<sigma> = Inr JUndefined"
proof -
  from assms(1) have "js_get \<sigma> Template_addr ''libs'' = JRef r"
    by (simp add: plain_registry_def js_get_own)
  moreover from assms have "js_get \<sigma> r k = JUndefined"
    by (simp add: plain_registry_def js_get_def find_property_step find_property_null)
  ultimately show ?thesis by (simp add: libs_get_def)
qed

lemma plain_registry_stores:
  assumes "plain_registry r \<sigma>" and "k \<noteq> ''__proto__''"
  shows "js_put strict \<sigma> r k v =
     Inr ((heap \<sigma>)(r := (heap \<sigma> r)\<lparr>own := (own (heap \<sigma> r))(k \<mapsto> \<lparr>pvalue = v, writable = True\<rparr>)\<rparr>))"
proof (cases "own (heap \<sigma> r) k")
  case (Some p)
  with assms have "writable p" by (auto simp add: plain_registry_def)
  with Some show ?thesis by (simp add: js_put_def Let_def)
next
  case None
  show ?thesis
  proof (cases "own (heap \<sigma> Object_prototype_addr) k")
    case (Some p)
    with assms have "writable p" by (auto simp add: plain_registry_def)
    with Some None assms show ?thesis
      by (simp add: js_put_def Let_def plain_registry_def find_property_step)
  next
    case n: None
    with None assms show ?thesis
      by (simp add: js_put_def Let_def plain_registry_def find_property_step find_property_null)
  qed
qed

lemma plain_registry_set_get:
  assumes "plain_registry r \<sigma>" and "k \<noteq> ''__proto__''"
  shows "libs_get k (snd (libs_set strict k v \<sigma>)) = Inr v
       \<and> plain_registry r (snd (libs_set strict k v \<sigma>))"
proof -
  from assms(1) have l: "js_get \<sigma> Template_addr ''libs'' = JRef r"
    by (simp add: plain_registry_def js_get_own)
  let ?\<sigma> = "\<sigma>\<lparr>heap := (heap \<sigma>)
      (r := (heap \<sigma> r)\<lparr>own := (own (heap \<sigma> r))(k \<mapsto> \<lparr>pvalue = v, writable = True\<rparr>)\<rparr>)\<rparr>"
  from l plain_registry_stores [OF assms, of strict v]
  have s: "snd (libs_set strict k v \<sigma>) = ?\<sigma>"
    by (simp add: libs_set_def js_assign_def)
  from assms(1) have p: "plain_registry r ?\<sigma>"
    by (auto simp add: plain_registry_def)
  then have "own (heap ?\<sigma> Template_addr) ''libs'' = Some \<lparr>pvalue = JRef r, writable = True\<rparr>"
    unfolding plain_registry_def by blast
  from js_get_own [OF this] have "js_get ?\<sigma> Template_addr ''libs'' = JRef r"
    by simp
  moreover have "js_get ?\<sigma> r k = v"
    by (simp add: js_get_own)
  ultimately have "libs_get k ?\<sigma> = Inr v"
    by (simp add: libs_get_def)
  with p s show ?thesis by simp
qed

text \<open>
  Claim C6, as amended. When the file has been loaded, \<^verbatim>\<open>Template.libs\<close> is an
  object without entries of its own that inherits from \<^verbatim>\<open>Object.prototype\<close>, which
  holds eleven methods. As long as \<^verbatim>\<open>Template.libs\<close> is such an object
  (\<^verbatim>\<open>Template.libs\<close> has not been replaced, its prototype is still
  \<^verbatim>\<open>Object.prototype\<close>, and neither of the two has a read-only property), for every
  key other than \<^verbatim>\<open>__proto__\<close>: reading a key that neither the registry nor
  \<^verbatim>\<open>Object.prototype\<close> holds yields \<^verbatim>\<open>undefined\<close> and throws nothing; and after the
  key has been set to a value, reading it yields that value, and the registry is
  still such an object.
\<close>

theorem libs_registry_amended:
  "plain_registry libs_addr (initial_world w)
   \<and> own (heap (initial_world w) libs_addr) = Map.empty
   \<and> dom (own (heap (initial_world w) Object_prototype_addr))
       = {''constructor'', ''toString'', ''toLocaleString'', ''valueOf'', ''hasOwnProperty'',
          ''isPrototypeOf'', ''propertyIsEnumerable'', ''__defineGetter__'',
          ''__defineSetter__'', ''__lookupGetter__'', ''__lookupSetter__''}
   \<and> (plain_registry r \<sigma> \<and> k \<noteq> ''__proto__''
        \<and> own (heap \<sigma> r) k = None \<and> own (heap \<sigma> Object_prototype_addr) k = None
      \<longrightarrow> libs_get k \<sigma> = Inr JUndefined)
   \<and> (plain_registry r \<sigma> \<and> k \<noteq> ''__proto__''
      \<longrightarrow> libs_get k (snd (libs_set strict k v \<sigma>)) = Inr v
          \<and> plain_registry r (snd (libs_set strict k v \<sigma>)))"
proof -
  have "plain_registry libs_addr (initial_world w)"
    by (auto simp add: plain_registry_def initial_world_def initial_objects_def
        Template_addr_def libs_addr_def Object_prototype_addr_def function_object_def
        data_property_def split: if_splits)
  moreover have "own (heap (initial_world w) libs_addr) = Map.empty"
    by (simp add: initial_world_def initial_objects_def libs_addr_def)
  moreover have "dom (own (heap (initial_world w) Object_prototype_addr))
       = {''constructor'', ''toString'', ''toLocaleString'', ''valueOf'', ''hasOwnProperty'',
          ''isPrototypeOf'', ''propertyIsEnumerable'', ''__defineGetter__'',
          ''__defineSetter__'', ''__lookupGetter__'', ''__lookupSetter__''}"
    by (simp add: initial_world_def initial_objects_def Object_prototype_addr_def
        dom_map_of_conv_image_fst)
  moreover have "libs_get k \<sigma> = Inr JUndefined"
    if "plain_registry r \<sigma> \<and> k \<noteq> ''__proto__''
        \<and> own (heap \<sigma> r) k = None \<and> own (heap \<sigma> Object_prototype_addr) k = None"
    using that by (blast intro: plain_registry_absent)
  moreover have "libs_get k (snd (libs_set strict k v \<sigma>)) = Inr v
          \<and> plain_registry r (snd (libs_set strict k v \<sigma>))"
    if "plain_registry r \<sigma> \<and> k \<noteq> ''__proto__''"
    using that plain_registry_set_get [of r \<sigma> k strict v] by blast
  ultimately show ?thesis by blast
qed

text \<open>
  When the file has just been loaded: the key \<^verbatim>\<open>ejs\<close> has no entry and reads as
  \<^verbatim>\<open>undefined\<close>; after it has been set, the key \<^verbatim>\<open>foo\<close> can be set and reads back.
\<close>

theorem libs_registry_amended_witness:
  "plain_registry libs_addr (initial_world example_modules)
   \<and> ''ejs'' \<noteq> ''__proto__''
   \<and> own (heap (initial_world example_modules) libs_addr) ''ejs'' = None
   \<and> own (heap (initial_world example_modules) Object_prototype_addr) ''ejs'' = None
   \<and> libs_get ''ejs'' (initial_world example_modules) = Inr JUndefined
   \<and> libs_get ''foo''
        (snd (libs_set True ''foo'' (JStr ''foo-lib'')
           (snd (libs_set False ''ejs'' (JStr ''ejs-lib'') (initial_world example_modules)))))
      = Inr (JStr ''foo-lib'')"
proof -
  let ?\<sigma> = "initial_world example_modules"
  note first = libs_registry_amended
    [where w = example_modules and \<sigma> = ?\<sigma> and r = libs_addr and k = "''ejs''"
       and strict = False and v = "JStr ''ejs-lib''"]
  from first have p: "plain_registry libs_addr ?\<sigma>" by blast
  have e: "''ejs'' \<noteq> ''__proto__''" by simp
  have a: "own (heap ?\<sigma> libs_addr) ''ejs'' = None"
    using first by simp
  have b: "own (heap ?\<sigma> Object_prototype_addr) ''ejs'' = None"
    by code_simp
  from first p e a b have u: "libs_get ''ejs'' ?\<sigma> = Inr JUndefined" by blast
  from first p e have q: "plain_registry libs_addr (snd (libs_set False ''ejs'' (JStr ''ejs-lib'') ?\<sigma>))"
    by blast
  have f: "''foo'' \<noteq> ''__proto__''" by simp
  from libs_registry_amended
    [where w = example_modules and \<sigma> = "snd (libs_set False ''ejs'' (JStr ''ejs-lib'') ?\<sigma>)"
       and r = libs_addr and k = "''foo''" and strict = True and v = "JStr ''foo-lib''"]
    q f
  have "libs_get ''foo''
        (snd (libs_set True ''foo'' (JStr ''foo-lib'')
           (snd (libs_set False ''ejs'' (JStr ''ejs-lib'') ?\<sigma>)))) = Inr (JStr ''foo-lib'')"
    by blast
  with p e a b u show ?thesis by simp
qed

text \<open>
  The claim as stated fails. When the file has just been loaded, the key
  \<^verbatim>\<open>toString\<close> has no entry, and reading it yields the function that
  \<^verbatim>\<open>Object.prototype\<close> holds. After \<^verbatim>\<open>Template.libs["__proto__"] = "x"\<close> the key
  \<^verbatim>\<open>__proto__\<close> reads as \<^verbatim>\<open>Object.prototype\<close>. After
  \<^verbatim>\<open>Template.libs["__proto__"] = t\<close>, for the instance \<^verbatim>\<open>t\<close> of the example, the
  key \<^verbatim>\<open>data\<close> has no entry and reads as \<^verbatim>\<open>"hello"\<close>, and setting the key
  \<^verbatim>\<open>file\<close> does not change what it reads as. After
  \<^verbatim>\<open>Template.libs["__proto__"] = null\<close> the key \<^verbatim>\<open>toString\<close> reads as
  \<^verbatim>\<open>undefined\<close>.
\<close>

theorem libs_registry_counterexample:
  "own (heap (initial_world example_modules) libs_addr) ''toString'' = None
   \<and> libs_get ''toString'' (initial_world example_modules) = Inr (JRef toString_addr)
   \<and> libs_get ''__proto__''
        (snd (libs_set True ''__proto__'' (JStr ''x'') (initial_world example_modules)))
       = Inr (JRef Object_prototype_addr)
   \<and> own (heap (snd (libs_set False ''__proto__'' (JRef 21) example_world)) libs_addr) ''data''
       = None
   \<and> libs_get ''data'' (snd (libs_set False ''__proto__'' (JRef 21) example_world))
       = Inr (JStr ''hello'')
   \<and> libs_get ''file''
        (snd (libs_set False ''file'' (JStr ''x'')
           (snd (libs_set False ''__proto__'' (JRef 21) example_world))))
       = Inr (JStr ''a.tpl'')
   \<and> libs_get ''toString'' (snd (libs_set False ''__proto__'' JNull example_world))
       = Inr JUndefined"
  by code_simp

subsection \<open>What the base contract changes\<close>





end
